theory Spec2Isabelle
  imports Main "HOL-Library.Multiset"
begin

section \<open>Data model of \<^verbatim>\<open>install_build.py\<close>\<close>

text \<open>
  The \<^verbatim>\<open>Command\<close> dataclass. \<^verbatim>\<open>required\<close> defaults to \<^verbatim>\<open>True\<close>, the two optional
  fields default to \<^verbatim>\<open>None\<close>.
\<close>

record Command =
  name :: string
  cmd :: "string list"
  description :: string
  required :: bool
  check_cmd :: "string list option"
  install_hint :: "string option"

text \<open>
  The exceptions that reach the script's \<^verbatim>\<open>except\<close> clauses. \<^verbatim>\<open>TimeoutExpired\<close> and
  \<^verbatim>\<open>CalledProcessError\<close> are subclasses of \<^verbatim>\<open>SubprocessError\<close>; \<^verbatim>\<open>FileNotFoundError\<close> is a
  subclass of \<^verbatim>\<open>OSError\<close>; \<^verbatim>\<open>UnicodeDecodeError\<close> is what \<^verbatim>\<open>subprocess.run\<close> raises under
  \<^verbatim>\<open>text=True\<close> when the captured output is not valid text; \<^verbatim>\<open>MarkupError\<close> is what
  \<^verbatim>\<open>console.print\<close> of the rich library raises on text it cannot read as markup;
  \<^verbatim>\<open>KeyboardInterrupt\<close> is the only one that is not an \<^verbatim>\<open>Exception\<close>.
\<close>

datatype exn =
    TimeoutExpired
  | CalledProcessError int
  | FileNotFoundError
  | OSError
  | UnicodeDecodeError
  | MarkupError
  | EOFError
  | KeyboardInterrupt

fun is_SubprocessError :: "exn \<Rightarrow> bool" where
  "is_SubprocessError TimeoutExpired = True"
| "is_SubprocessError (CalledProcessError rc) = True"
| "is_SubprocessError e = False"

fun is_Exception :: "exn \<Rightarrow> bool" where
  "is_Exception KeyboardInterrupt = False"
| "is_Exception e = True"

text \<open>The value \<^verbatim>\<open>subprocess.run\<close> returns when the child ran to its end.\<close>

record CompletedProcess =
  returncode :: int
  stdout :: string
  stderr :: string

text \<open>
  What a spawned process does: it runs for some time and exits with a code and its two
  captured streams, or it runs for some time and exits with a code but what it wrote is
  not valid text in the encoding of the locale, or its executable is not found, or the
  spawn fails with another \<^verbatim>\<open>OSError\<close>, or the user interrupts the wait.
\<close>

datatype behaviour =
    Runs nat int string string
  | Garbled nat int
  | NotFound
  | OSFailure
  | Interrupted

text \<open>What a prompt gives back: an answer, end of input, or an interrupt.\<close>

datatype 'a reply = Reply 'a | EndOfInput | CtrlC

text \<open>
  Everything the script prints, one constructor for each \<^verbatim>\<open>print\<close> call, carrying the
  values the source interpolates. Emoji, the transient progress spinner and the elapsed
  time are left out.
\<close>

datatype msg =
    Header
  | CheckingPrerequisites
  | PrerequisiteFound string string
  | MissingPrerequisites "string list"
  | PleaseInstallMissing
  | ToolNotFound string
  | CompletedSuccessfully string
  | OutputLine string
  | StepFailed string
  | ErrorLine string
  | StepTimedOut string
  | FailedWithExitCode string int
  | CommandNotFound string
  | Hint string
  | UnexpectedErrorIn string exn
  | ErrorIn string exn
  | Describing string
  | Cancelled
  | Starting nat
  | StepHeader nat nat string
  | CriticalFailure string
  | RowSuccessful nat "string list" "nat option"
  | RowFailed nat "string list"
  | RowSkipped nat "string list"
  | TableEnd
  | AllCompleted
  | TotalTime
  | NextSteps
  | CompletedWithFailures nat
  | PleaseReview
  | SummaryBanner
  | CountSuccessful nat
  | CountFailed nat
  | CountSkipped nat
  | FailedComponents "string list"
  | InterruptedByUser
  | UnexpectedError exn

text \<open>
  The world outside the script: whether the \<^verbatim>\<open>rich\<close> library could be imported, what the
  \<open>k\<close>-th spawned process does (by its argument vector), what the user answers to the
  \<open>k\<close>-th prompt (\<^verbatim>\<open>Confirm.ask\<close> on the rich path, \<^verbatim>\<open>input\<close> on the plain one), and which
  messages the markup parser of the rich library refuses. The same command may behave
  differently each time it is spawned. An interrupt reaches the script where it waits: on
  a spawned process or on a prompt.

  \<^verbatim>\<open>console.print\<close> reads its argument as markup and raises \<^verbatim>\<open>MarkupError\<close> on, for
  instance, a closing tag that matches no open one, such as \<^verbatim>\<open>[/tmp/log]\<close>; the text a
  process wrote, or the text of an exception, may hold one. The library is not part of
  the script, so what its parser refuses is a parameter of the world.
\<close>

record world =
  RICH_AVAILABLE :: bool
  proc :: "nat \<Rightarrow> string list \<Rightarrow> behaviour"
  ask :: "nat \<Rightarrow> bool reply"
  input :: "nat \<Rightarrow> string reply"
  rejects :: "msg \<Rightarrow> bool"

datatype prompt = ContinueWithInstallation | ContinueDespiteFailure

text \<open>
  The \<^verbatim>\<open>InstallationManager\<close> object together with the trace of its effects: every
  \<^verbatim>\<open>subprocess.run\<close> call (argument vector, timeout, what it gave), every prompt shown and
  every message printed.
\<close>

record state =
  failed_commands :: "string list"
  successful_commands :: "string list"
  skipped_commands :: "string list"
  commands :: "Command list"
  spawned :: "(string list \<times> nat \<times> (exn + CompletedProcess)) list"
  asked :: "prompt list"
  printed :: "msg list"

definition InstallationManager :: "Command list \<Rightarrow> state" where
  "InstallationManager cs =
     \<lparr>failed_commands = [], successful_commands = [], skipped_commands = [],
      commands = cs, spawned = [], asked = [], printed = []\<rparr>"

definition default_commands :: "Command list" where
  "default_commands =
    [\<lparr>name = ''Node.js/pnpm Check'', cmd = [''pnpm'', ''--version''],
      description = ''Checking if pnpm is available'', required = True,
      check_cmd = Some [''pnpm'', ''--version''],
      install_hint = Some ''Install pnpm: npm install -g pnpm''\<rparr>,
     \<lparr>name = ''Rust/Cargo Check'', cmd = [''cargo'', ''--version''],
      description = ''Checking if Cargo is available'', required = True,
      check_cmd = Some [''cargo'', ''--version''],
      install_hint = Some ''Install Rust: https://rustup.rs/''\<rparr>,
     \<lparr>name = ''Frontend Dependencies'', cmd = [''pnpm'', ''install''],
      description = ''Installing frontend dependencies with pnpm'', required = True,
      check_cmd = None, install_hint = None\<rparr>,
     \<lparr>name = ''Rust Dependencies Fetch'', cmd = [''cargo'', ''fetch''],
      description = ''Fetching Rust dependencies'', required = True,
      check_cmd = None, install_hint = None\<rparr>,
     \<lparr>name = ''Rust Dependencies Build'', cmd = [''cargo'', ''build''],
      description = ''Building Rust dependencies'', required = True,
      check_cmd = None, install_hint = None\<rparr>,
     \<lparr>name = ''Tauri CLI'', cmd = [''cargo'', ''install'', ''tauri-cli'', ''--version'', ''^1''],
      description = ''Installing Tauri CLI (latest v1.x)'', required = True,
      check_cmd = None, install_hint = None\<rparr>,
     \<lparr>name = ''Cargo Nextest'', cmd = [''cargo'', ''install'', ''--locked'', ''cargo-nextest''],
      description = ''Installing cargo-nextest for enhanced testing'', required = True,
      check_cmd = None, install_hint = None\<rparr>,
     \<lparr>name = ''Cargo Helper Tools'', cmd = [''cargo'', ''install'', ''cargo-edit'', ''cargo-watch''],
      description = ''Installing cargo-edit and cargo-watch utilities'', required = True,
      check_cmd = None, install_hint = None\<rparr>]"

section \<open>Library calls\<close>

text \<open>
  Text is a list of 8-bit characters, read as the code points U+0000 to U+00FF.
  \<^verbatim>\<open>str.strip\<close> removes the white space of Unicode at both ends: below U+0100 these are
  U+0009 to U+000D, U+001C to U+0020, U+0085 and U+00A0. \<^verbatim>\<open>str.lower\<close> maps the letters
  \<^verbatim>\<open>A\<close> to \<^verbatim>\<open>Z\<close> and U+00C0 to U+00DE (but for the sign U+00D7) 32 places up.
\<close>

definition is_space :: "char \<Rightarrow> bool" where
  "is_space ch =
     (let n = (of_char ch :: nat)
      in (9 \<le> n \<and> n \<le> 13) \<or> (28 \<le> n \<and> n \<le> 32) \<or> n = 133 \<or> n = 160)"

definition strip :: "string \<Rightarrow> string" where
  "strip s = rev (dropWhile is_space (rev (dropWhile is_space s)))"

definition lower_char :: "char \<Rightarrow> char" where
  "lower_char ch =
     (let n = (of_char ch :: nat)
      in if (65 \<le> n \<and> n \<le> 90) \<or> (192 \<le> n \<and> n \<le> 222 \<and> n \<noteq> 215) then char_of (n + 32)
         else ch)"

definition lower :: "string \<Rightarrow> string" where
  "lower s = map lower_char s"

text \<open>
  The builtin \<^verbatim>\<open>print\<close>, which reads no markup; also \<^verbatim>\<open>console.print\<close> for the messages made
  of the script's own texts alone (its titles, and the names, descriptions and hints of
  its steps), which are taken to be well-formed markup.
\<close>

definition console_print :: "msg \<Rightarrow> state \<Rightarrow> state" where
  "console_print m st = st\<lparr>printed := printed st @ [m]\<rparr>"

text \<open>
  \<^verbatim>\<open>console.print\<close> for a message that interpolates what a process wrote or the text of an
  exception: it raises \<^verbatim>\<open>MarkupError\<close>, printing nothing, when the parser refuses the
  message.
\<close>

definition rich_print :: "world \<Rightarrow> msg \<Rightarrow> state \<Rightarrow> (exn + unit) \<times> state" where
  "rich_print w m st =
     (if rejects w m then (Inl MarkupError, st) else (Inr (), console_print m st))"

text \<open>
  \<^verbatim>\<open>subprocess.run(argv, capture_output=True, text=True, timeout=t)\<close>: the child is the
  next process of the world; one that runs longer than \<open>t\<close> raises \<^verbatim>\<open>TimeoutExpired\<close>, and
  one that ends in time with output that cannot be decoded raises \<^verbatim>\<open>UnicodeDecodeError\<close>.
\<close>

definition subprocess_run ::
  "world \<Rightarrow> state \<Rightarrow> string list \<Rightarrow> nat \<Rightarrow> (exn + CompletedProcess) \<times> state" where
  "subprocess_run w st argv t =
     (let r = (case proc w (length (spawned st)) argv of
                 Runs d rc out err \<Rightarrow>
                   if t < d then Inl TimeoutExpired
                   else Inr \<lparr>returncode = rc, stdout = out, stderr = err\<rparr>
               | Garbled d rc \<Rightarrow>
                   if t < d then Inl TimeoutExpired else Inl UnicodeDecodeError
               | NotFound \<Rightarrow> Inl FileNotFoundError
               | OSFailure \<Rightarrow> Inl OSError
               | Interrupted \<Rightarrow> Inl KeyboardInterrupt)
      in (r, st\<lparr>spawned := spawned st @ [(argv, t, r)]\<rparr>))"

text \<open>\<^verbatim>\<open>Confirm.ask\<close> of the rich library and the builtin \<^verbatim>\<open>input\<close>.\<close>

definition Confirm_ask :: "world \<Rightarrow> prompt \<Rightarrow> state \<Rightarrow> (exn + bool) \<times> state" where
  "Confirm_ask w p st =
     (case ask w (length (asked st)) of
        Reply b \<Rightarrow> Inr b
      | EndOfInput \<Rightarrow> Inl EOFError
      | CtrlC \<Rightarrow> Inl KeyboardInterrupt,
      st\<lparr>asked := asked st @ [p]\<rparr>)"

definition builtin_input :: "world \<Rightarrow> prompt \<Rightarrow> state \<Rightarrow> (exn + string) \<times> state" where
  "builtin_input w p st =
     (case input w (length (asked st)) of
        Reply s \<Rightarrow> Inr s
      | EndOfInput \<Rightarrow> Inl EOFError
      | CtrlC \<Rightarrow> Inl KeyboardInterrupt,
      st\<lparr>asked := asked st @ [p]\<rparr>)"

text \<open>Truthiness of an optional list, as in \<^verbatim>\<open>if command.check_cmd:\<close>.\<close>

fun truthy :: "'a list option \<Rightarrow> bool" where
  "truthy None = False"
| "truthy (Some xs) = (xs \<noteq> [])"

section \<open>The Prerequisite Gate\<close>

definition prerequisites :: "(string \<times> string list \<times> string) list" where
  "prerequisites =
     [(''node'', [''node'', ''--version''], ''Node.js''),
      (''npm'', [''npm'', ''--version''], ''npm''),
      (''git'', [''git'', ''--version''], ''Git'')]"

text \<open>
  The body of the \<^verbatim>\<open>try\<close> block of one check: whether the tool answered with exit code 0.
  The line that shows the tool's version is printed inside the block.
\<close>

definition check_tool :: "world \<Rightarrow> state \<Rightarrow> string list \<Rightarrow> string \<Rightarrow> (exn + bool) \<times> state" where
  "check_tool w st argv nm =
     (case subprocess_run w st argv 10 of
        (Inl e, st1) \<Rightarrow> (Inl e, st1)
      | (Inr result, st1) \<Rightarrow>
          if returncode result = 0
          then (if RICH_AVAILABLE w
                then (case rich_print w (PrerequisiteFound nm (strip (stdout result))) st1 of
                        (Inl e, st2) \<Rightarrow> (Inl e, st2)
                      | (Inr u, st2) \<Rightarrow> (Inr True, st2))
                else (Inr True,
                      console_print (PrerequisiteFound nm (strip (stdout result))) st1))
          else (Inr False, st1))"

text \<open>
  The \<^verbatim>\<open>for tool, cmd, name in prerequisites\<close> loop, with its \<^verbatim>\<open>missing\<close> list and the
  \<^verbatim>\<open>except\<close> clause of each check.
\<close>

fun check_tools ::
  "world \<Rightarrow> (string \<times> string list \<times> string) list \<Rightarrow> string list \<Rightarrow> state
     \<Rightarrow> (exn + string list) \<times> state" where
  "check_tools w [] missing st = (Inr missing, st)"
| "check_tools w ((tool, argv, nm) # rest) missing st =
     (case check_tool w st argv nm of
        (Inr True, st1) \<Rightarrow> check_tools w rest missing st1
      | (Inr False, st1) \<Rightarrow> check_tools w rest (missing @ [nm]) st1
      | (Inl e, st1) \<Rightarrow>
          if e = TimeoutExpired \<or> e = FileNotFoundError \<or> is_SubprocessError e
          then check_tools w rest (missing @ [nm]) st1
          else (Inl e, st1))"

definition check_prerequisites :: "world \<Rightarrow> state \<Rightarrow> (exn + bool) \<times> state" where
  "check_prerequisites w st =
     (case check_tools w prerequisites [] (console_print CheckingPrerequisites st) of
        (Inl e, st1) \<Rightarrow> (Inl e, st1)
      | (Inr missing, st1) \<Rightarrow>
          if missing \<noteq> []
          then (Inr False,
                console_print PleaseInstallMissing (console_print (MissingPrerequisites missing) st1))
          else (Inr True, st1))"

section \<open>Running one command\<close>

text \<open>
  The body of the \<^verbatim>\<open>try\<close> block of the rich path, after the precheck: the invocation
  itself and the two branches on its return code.
\<close>

definition rich_invocation :: "world \<Rightarrow> state \<Rightarrow> Command \<Rightarrow> (exn + bool) \<times> state" where
  "rich_invocation w st c =
     (case subprocess_run w st (cmd c) 300 of
        (Inl e, st1) \<Rightarrow> (Inl e, st1)
      | (Inr result, st1) \<Rightarrow>
          if returncode result = 0
          then (let st2 = console_print (CompletedSuccessfully (name c)) st1 in
                if strip (stdout result) \<noteq> []
                then (case rich_print w (OutputLine (take 100 (strip (stdout result)))) st2 of
                        (Inl e, st3) \<Rightarrow> (Inl e, st3)
                      | (Inr u, st3) \<Rightarrow> (Inr True, st3))
                else (Inr True, st2))
          else (let st2 = console_print (StepFailed (name c)) st1 in
                if stderr result \<noteq> []
                then (case rich_print w (ErrorLine (take 200 (strip (stderr result)))) st2 of
                        (Inl e, st3) \<Rightarrow> (Inl e, st3)
                      | (Inr u, st3) \<Rightarrow> (Inr False, st3))
                else (Inr False, st2)))"

text \<open>The whole \<^verbatim>\<open>try\<close> block of the rich path: precheck first, when one is declared.\<close>

definition rich_try :: "world \<Rightarrow> state \<Rightarrow> Command \<Rightarrow> (exn + bool) \<times> state" where
  "rich_try w st c =
     (if truthy (check_cmd c)
      then (case subprocess_run w st (the (check_cmd c)) 10 of
              (Inl e, st1) \<Rightarrow> (Inl e, st1)
            | (Inr check_result, st1) \<Rightarrow>
                if returncode check_result \<noteq> 0
                then (Inl (CalledProcessError (returncode check_result)),
                      (if truthy (install_hint c)
                       then console_print (ToolNotFound (the (install_hint c))) st1
                       else st1))
                else rich_invocation w st1 c)
      else rich_invocation w st c)"

text \<open>
  The \<^verbatim>\<open>except\<close> clauses of the rich path, in their order. The last one prints the text of
  the exception it caught; what that print raises leaves \<^verbatim>\<open>run_command\<close>.
\<close>

fun rich_except :: "world \<Rightarrow> Command \<Rightarrow> exn \<Rightarrow> state \<Rightarrow> (exn + bool) \<times> state" where
  "rich_except w c TimeoutExpired st = (Inr False, console_print (StepTimedOut (name c)) st)"
| "rich_except w c (CalledProcessError rc) st =
     (Inr False, console_print (FailedWithExitCode (name c) rc) st)"
| "rich_except w c FileNotFoundError st =
     (Inr False,
      (let st1 = console_print (CommandNotFound (name c)) st in
       if truthy (install_hint c) then console_print (Hint (the (install_hint c))) st1 else st1))"
| "rich_except w c KeyboardInterrupt st = (Inl KeyboardInterrupt, st)"
| "rich_except w c e st =
     (case rich_print w (UnexpectedErrorIn (name c) e) st of
        (Inl e', st1) \<Rightarrow> (Inl e', st1)
      | (Inr u, st1) \<Rightarrow> (Inr False, st1))"

definition run_command_rich :: "world \<Rightarrow> state \<Rightarrow> Command \<Rightarrow> (exn + bool) \<times> state" where
  "run_command_rich w st c =
     (case rich_try w st c of
        (Inl e, st1) \<Rightarrow> rich_except w c e st1
      | (Inr b, st1) \<Rightarrow> (Inr b, st1))"

text \<open>The fallback for the basic console: no precheck, one \<^verbatim>\<open>except Exception\<close>.\<close>

definition run_command_plain :: "world \<Rightarrow> state \<Rightarrow> Command \<Rightarrow> (exn + bool) \<times> state" where
  "run_command_plain w st c =
     (case subprocess_run w (console_print (Describing (description c)) st) (cmd c) 300 of
        (Inl e, st1) \<Rightarrow>
          if is_Exception e then (Inr False, console_print (ErrorIn (name c) e) st1)
          else (Inl e, st1)
      | (Inr result, st1) \<Rightarrow>
          if returncode result = 0
          then (Inr True, console_print (CompletedSuccessfully (name c)) st1)
          else (Inr False,
                (let st2 = console_print (StepFailed (name c)) st1 in
                 if stderr result \<noteq> []
                 then console_print (ErrorLine (take 200 (strip (stderr result)))) st2
                 else st2)))"

definition run_command :: "world \<Rightarrow> state \<Rightarrow> Command \<Rightarrow> (exn + bool) \<times> state" where
  "run_command w st c =
     (if RICH_AVAILABLE w then run_command_rich w st c else run_command_plain w st c)"

section \<open>The pipeline\<close>

text \<open>The two prompts of \<^verbatim>\<open>run_installation\<close>; each gives whether the run goes on.\<close>

definition confirm_installation :: "world \<Rightarrow> state \<Rightarrow> (exn + bool) \<times> state" where
  "confirm_installation w st =
     (if RICH_AVAILABLE w then Confirm_ask w ContinueWithInstallation st
      else (case builtin_input w ContinueWithInstallation st of
              (Inl e, st1) \<Rightarrow> (Inl e, st1)
            | (Inr response, st1) \<Rightarrow>
                (Inr (lower (strip response) \<notin> set [''n'', ''no'']), st1)))"

definition continue_despite_failure :: "world \<Rightarrow> state \<Rightarrow> (exn + bool) \<times> state" where
  "continue_despite_failure w st =
     (if RICH_AVAILABLE w then Confirm_ask w ContinueDespiteFailure st
      else (case builtin_input w ContinueDespiteFailure st of
              (Inl e, st1) \<Rightarrow> (Inl e, st1)
            | (Inr response, st1) \<Rightarrow>
                (Inr (lower (strip response) \<in> set [''y'', ''yes'']), st1)))"

text \<open>
  How the \<^verbatim>\<open>for\<close> loop over the commands ends: it ran off the list, it was left by
  \<^verbatim>\<open>break\<close>, or an exception went through it.
\<close>

datatype loop_end = Finished | Halted | Raised exn

fun run_commands :: "world \<Rightarrow> nat \<Rightarrow> nat \<Rightarrow> state \<Rightarrow> Command list \<Rightarrow> loop_end \<times> state" where
  "run_commands w n i st [] = (Finished, st)"
| "run_commands w n i st (c # cs) =
     (case run_command w (console_print (StepHeader i n (name c)) st) c of
        (Inl e, st1) \<Rightarrow> (Raised e, st1)
      | (Inr True, st1) \<Rightarrow>
          run_commands w n (Suc i)
            (st1\<lparr>successful_commands := successful_commands st1 @ [name c]\<rparr>) cs
      | (Inr False, st1) \<Rightarrow>
          (let st2 = st1\<lparr>failed_commands := failed_commands st1 @ [name c]\<rparr> in
           if required c
           then (case continue_despite_failure w (console_print (CriticalFailure (name c)) st2) of
                   (Inl e, st3) \<Rightarrow> (Raised e, st3)
                 | (Inr True, st3) \<Rightarrow> run_commands w n (Suc i) st3 cs
                 | (Inr False, st3) \<Rightarrow> (Halted, st3))
           else run_commands w n (Suc i) st2 cs))"

text \<open>The lines of the final summary, from the three lists alone.\<close>

definition summary_lines :: "bool \<Rightarrow> string list \<Rightarrow> string list \<Rightarrow> string list \<Rightarrow> msg list" where
  "summary_lines rich ok bad skip =
     (if rich
      then (if ok \<noteq> []
            then [RowSuccessful (length ok) (take 3 ok)
                    (if 3 < length ok then Some (length ok - 3) else None)]
            else [])
         @ (if bad \<noteq> [] then [RowFailed (length bad) bad] else [])
         @ (if skip \<noteq> [] then [RowSkipped (length skip) skip] else [])
         @ [TableEnd]
         @ (if bad = [] then [AllCompleted, TotalTime, NextSteps]
            else [CompletedWithFailures (length bad), PleaseReview, TotalTime])
      else [SummaryBanner, CountSuccessful (length ok), CountFailed (length bad),
            CountSkipped (length skip), TotalTime]
         @ (if bad \<noteq> [] then [FailedComponents bad] else [])
         @ (if bad = [] then [AllCompleted, NextSteps] else []))"

definition print_summary :: "world \<Rightarrow> state \<Rightarrow> state" where
  "print_summary w st =
     st\<lparr>printed := printed st
          @ summary_lines (RICH_AVAILABLE w)
              (successful_commands st) (failed_commands st) (skipped_commands st)\<rparr>"

text \<open>
  How \<^verbatim>\<open>run_installation\<close> ends: it returns after the summary, it calls \<^verbatim>\<open>sys.exit\<close>, or
  an exception leaves it.
\<close>

datatype ending = Returned | SysExit nat | Escaped exn

definition run_installation :: "world \<Rightarrow> state \<Rightarrow> ending \<times> state" where
  "run_installation w st =
     (case check_prerequisites w (console_print Header st) of
        (Inl e, st1) \<Rightarrow> (Escaped e, st1)
      | (Inr False, st1) \<Rightarrow> (SysExit 1, st1)
      | (Inr True, st1) \<Rightarrow>
          (case confirm_installation w st1 of
             (Inl e, st2) \<Rightarrow> (Escaped e, st2)
           | (Inr False, st2) \<Rightarrow> (SysExit 0, console_print Cancelled st2)
           | (Inr True, st2) \<Rightarrow>
               (case run_commands w (length (commands st2)) 1
                       (console_print (Starting (length (commands st2))) st2) (commands st2) of
                  (Raised e, st3) \<Rightarrow> (Escaped e, st3)
                | (le, st3) \<Rightarrow> (Returned, print_summary w st3))))"

text \<open>
  \<^verbatim>\<open>main\<close>, with the exit status of the process: 0 when \<^verbatim>\<open>main\<close> returns, the argument of
  \<^verbatim>\<open>sys.exit\<close> otherwise. When the last handler's own print raises, the exception leaves
  \<^verbatim>\<open>main\<close> and the interpreter ends with status 1.
\<close>

definition main :: "world \<Rightarrow> Command list \<Rightarrow> nat \<times> state" where
  "main w cs =
     (case run_installation w (InstallationManager cs) of
        (Returned, st) \<Rightarrow> (0, st)
      | (SysExit n, st) \<Rightarrow> (n, st)
      | (Escaped e, st) \<Rightarrow>
          if e = KeyboardInterrupt then (1, console_print InterruptedByUser st)
          else if RICH_AVAILABLE w then (1, snd (rich_print w (UnexpectedError e) st))
          else (1, console_print (UnexpectedError e) st))"

section \<open>Observations on a run\<close>

text \<open>
  What the invocation of step \<open>c\<close> gave during the \<^verbatim>\<open>run_command\<close> call that led from
  \<open>st\<close> to \<open>st'\<close>: the last process spawned by that call, when it is \<^verbatim>\<open>command.cmd\<close>
  under the 300 timeout; \<open>None\<close> when the invocation was never attempted.
\<close>

definition invocation_outcome ::
  "state \<Rightarrow> state \<Rightarrow> Command \<Rightarrow> (exn + CompletedProcess) option" where
  "invocation_outcome st st' c =
     (let new = drop (length (spawned st)) (spawned st') in
      if new = [] then None
      else (case last new of
              (argv, t, r) \<Rightarrow> if argv = cmd c \<and> t = 300 then Some r else None))"



text \<open>The argument vector and timeout of every process spawned so far, in order.\<close>

definition calls :: "state \<Rightarrow> (string list \<times> nat) list" where
  "calls st = map (\<lambda>(argv, t, r). (argv, t)) (spawned st)"

text \<open>The processes the Prerequisite Gate spawns when it runs through all its checks.\<close>

definition gate_calls :: "(string \<times> string list \<times> string) list \<Rightarrow> (string list \<times> nat) list" where
  "gate_calls ps = map (\<lambda>(tool, argv, nm). (argv, 10)) ps"

text \<open>The step and tool names a printed message shows.\<close>

fun mentioned :: "msg \<Rightarrow> string list" where
  "mentioned (PrerequisiteFound nm v) = [nm]"
| "mentioned (MissingPrerequisites ns) = ns"
| "mentioned (CompletedSuccessfully nm) = [nm]"
| "mentioned (StepFailed nm) = [nm]"
| "mentioned (StepTimedOut nm) = [nm]"
| "mentioned (FailedWithExitCode nm rc) = [nm]"
| "mentioned (CommandNotFound nm) = [nm]"
| "mentioned (UnexpectedErrorIn nm e) = [nm]"
| "mentioned (ErrorIn nm e) = [nm]"
| "mentioned (StepHeader i n nm) = [nm]"
| "mentioned (CriticalFailure nm) = [nm]"
| "mentioned (RowSuccessful k ns extra) = ns"
| "mentioned (RowFailed k ns) = ns"
| "mentioned (RowSkipped k ns) = ns"
| "mentioned (FailedComponents ns) = ns"
| "mentioned m = []"

text \<open>
  The Prerequisite Gate's view of the world. The \<open>k\<close>-th check finds its tool absent when
  the process exits non-zero, outlives the 10 time units, or is not found; any other
  failure of the check is not caught by the gate and leaves it as an exception: another
  failure of the spawn, an interrupt, output that cannot be decoded, or a version line
  that the rich console refuses.
\<close>

definition tool_absent :: "world \<Rightarrow> nat \<Rightarrow> string list \<Rightarrow> bool" where
  "tool_absent w k argv =
     (case proc w k argv of
        Runs d rc out err \<Rightarrow> 10 < d \<or> rc \<noteq> 0
      | Garbled d rc \<Rightarrow> 10 < d
      | NotFound \<Rightarrow> True
      | OSFailure \<Rightarrow> False
      | Interrupted \<Rightarrow> False)"

definition check_escapes :: "world \<Rightarrow> nat \<Rightarrow> string list \<Rightarrow> string \<Rightarrow> bool" where
  "check_escapes w k argv nm =
     (case proc w k argv of
        Runs d rc out err \<Rightarrow>
          d \<le> 10 \<and> rc = 0 \<and> RICH_AVAILABLE w \<and> rejects w (PrerequisiteFound nm (strip out))
      | Garbled d rc \<Rightarrow> d \<le> 10
      | NotFound \<Rightarrow> False
      | OSFailure \<Rightarrow> True
      | Interrupted \<Rightarrow> True)"

fun absent_from :: "world \<Rightarrow> nat \<Rightarrow> (string \<times> string list \<times> string) list \<Rightarrow> string list" where
  "absent_from w k [] = []"
| "absent_from w k ((tool, argv, nm) # rest) =
     (if tool_absent w k argv then [nm] else []) @ absent_from w (Suc k) rest"

fun any_escape :: "world \<Rightarrow> nat \<Rightarrow> (string \<times> string list \<times> string) list \<Rightarrow> bool" where
  "any_escape w k [] = False"
| "any_escape w k ((tool, argv, nm) # rest) =
     (check_escapes w k argv nm \<or> any_escape w (Suc k) rest)"

section \<open>Example steps and worlds\<close>

definition stepA :: Command where
  "stepA = \<lparr>name = ''A'', cmd = [''a''], description = ''step a'', required = True,
            check_cmd = None, install_hint = None\<rparr>"

definition stepB :: Command where
  "stepB = \<lparr>name = ''B'', cmd = [''b''], description = ''step b'', required = True,
            check_cmd = None, install_hint = None\<rparr>"

definition stepB_optional :: Command where
  "stepB_optional = stepB\<lparr>required := False\<rparr>"

definition stepC :: Command where
  "stepC = \<lparr>name = ''C'', cmd = [''c''], description = ''step c'', required = True,
            check_cmd = None, install_hint = None\<rparr>"

text \<open>A step whose precheck is another command than its invocation.\<close>

definition stepP :: Command where
  "stepP = \<lparr>name = ''P'', cmd = [''a''], description = ''step p'', required = True,
            check_cmd = Some [''b''], install_hint = Some ''install b''\<rparr>"

text \<open>
  A world in which every process exits 0 after one time unit, except \<^verbatim>\<open>b\<close>, which exits 1;
  the user accepts the first prompt and declines the second.
\<close>

definition world_b_fails :: "bool \<Rightarrow> world" where
  "world_b_fails rich =
     \<lparr>RICH_AVAILABLE = rich,
      proc = (\<lambda>k argv. if argv = [''b''] then Runs 1 1 [] ''boom'' else Runs 1 0 ''v1'' []),
      ask = (\<lambda>k. Reply (k = 0)),
      input = (\<lambda>k. if k = 0 then Reply ''y'' else Reply ''n''),
      rejects = (\<lambda>m. False)\<rparr>"

text \<open>The same world with a \<^verbatim>\<open>b\<close> that never ends.\<close>

definition world_b_hangs :: "bool \<Rightarrow> world" where
  "world_b_hangs rich =
     \<lparr>RICH_AVAILABLE = rich,
      proc = (\<lambda>k argv. if argv = [''b''] then Runs 301 0 [] [] else Runs 1 0 ''v1'' []),
      ask = (\<lambda>k. Reply (k = 0)),
      input = (\<lambda>k. if k = 0 then Reply ''y'' else Reply ''n''),
      rejects = (\<lambda>m. False)\<rparr>"

text \<open>A world in which every process exits 0 and the user accepts every prompt.\<close>

definition world_all_ok :: "bool \<Rightarrow> world" where
  "world_all_ok rich =
     \<lparr>RICH_AVAILABLE = rich,
      proc = (\<lambda>k argv. Runs 1 0 ''v1'' []),
      ask = (\<lambda>k. Reply True),
      input = (\<lambda>k. Reply []),
      rejects = (\<lambda>m. False)\<rparr>"

text \<open>A world in which every process exits 0 and the user declines every prompt.\<close>

definition world_declined :: "bool \<Rightarrow> world" where
  "world_declined rich =
     \<lparr>RICH_AVAILABLE = rich,
      proc = (\<lambda>k argv. Runs 1 0 ''v1'' []),
      ask = (\<lambda>k. Reply False),
      input = (\<lambda>k. Reply '' No ''),
      rejects = (\<lambda>m. False)\<rparr>"


text \<open>A world in which \<^verbatim>\<open>pnpm\<close> exits 1 whatever it is asked; the user declines to go on.\<close>

definition world_pnpm_broken :: "bool \<Rightarrow> world" where
  "world_pnpm_broken rich =
     \<lparr>RICH_AVAILABLE = rich,
      proc = (\<lambda>k argv. if argv \<noteq> [] \<and> hd argv = ''pnpm'' then Runs 1 1 [] ''pnpm: broken''
                        else Runs 1 0 ''v1'' []),
      ask = (\<lambda>k. Reply (k = 0)),
      input = (\<lambda>k. if k = 0 then Reply [] else Reply ''n''),
      rejects = (\<lambda>m. False)\<rparr>"

text \<open>A world in which every process takes 20 time units and exits 0.\<close>

definition world_slow :: "bool \<Rightarrow> world" where
  "world_slow rich =
     \<lparr>RICH_AVAILABLE = rich,
      proc = (\<lambda>k argv. Runs 20 0 ''9.1.0'' []),
      ask = (\<lambda>k. Reply True),
      input = (\<lambda>k. Reply []),
      rejects = (\<lambda>m. False)\<rparr>"


text \<open>
  A parser that refuses the closing tag \<^verbatim>\<open>[/tmp/log]\<close> in the text of a process, and the
  text of a \<^verbatim>\<open>MarkupError\<close>, which quotes the tag it met.
\<close>

fun refuses_tag :: "msg \<Rightarrow> bool" where
  "refuses_tag (PrerequisiteFound nm v) = (v = ''see [/tmp/log]'')"
| "refuses_tag (OutputLine s) = (s = ''see [/tmp/log]'')"
| "refuses_tag (ErrorLine s) = (s = ''see [/tmp/log]'')"
| "refuses_tag (UnexpectedErrorIn nm e) = (e = MarkupError)"
| "refuses_tag (UnexpectedError e) = (e = MarkupError)"
| "refuses_tag m = False"

text \<open>
  A world in which \<^verbatim>\<open>a\<close> exits 0 and writes \<^verbatim>\<open>see [/tmp/log]\<close> to its output, \<^verbatim>\<open>b\<close> exits 1 and
  writes the same to its error stream, and every other process exits 0; the user accepts
  every prompt.
\<close>

definition world_markup :: "bool \<Rightarrow> world" where
  "world_markup rich =
     \<lparr>RICH_AVAILABLE = rich,
      proc = (\<lambda>k argv. if argv = [''a''] then Runs 1 0 ''see [/tmp/log]'' []
                        else if argv = [''b''] then Runs 1 1 [] ''see [/tmp/log]''
                        else Runs 1 0 ''v1'' []),
      ask = (\<lambda>k. Reply True),
      input = (\<lambda>k. Reply ''y''),
      rejects = refuses_tag\<rparr>"

section \<open>Facts about one command\<close>

lemma console_print_fields [simp]:
  "failed_commands (console_print m st) = failed_commands st"
  "successful_commands (console_print m st) = successful_commands st"
  "skipped_commands (console_print m st) = skipped_commands st"
  "commands (console_print m st) = commands st"
  "spawned (console_print m st) = spawned st"
  "asked (console_print m st) = asked st"
  "printed (console_print m st) = printed st @ [m]"
  by (simp_all add: console_print_def)

lemma subprocess_run_frame:
  "subprocess_run w st argv t = (r, st') \<Longrightarrow>
     failed_commands st' = failed_commands st \<and> successful_commands st' = successful_commands st \<and>
     skipped_commands st' = skipped_commands st \<and> commands st' = commands st \<and>
     asked st' = asked st \<and> printed st' = printed st \<and>
     spawned st' = spawned st @ [(argv, t, r)]"
  by (auto simp: subprocess_run_def Let_def)

lemma rich_print_frame:
  "rich_print w m st = (r, st') \<Longrightarrow>
     failed_commands st' = failed_commands st \<and> successful_commands st' = successful_commands st \<and>
     skipped_commands st' = skipped_commands st \<and> commands st' = commands st \<and>
     asked st' = asked st \<and> spawned st' = spawned st"
  by (auto simp: rich_print_def split: if_splits)

lemma rich_invocation_frame:
  "rich_invocation w st c = (r, st') \<Longrightarrow>
     failed_commands st' = failed_commands st \<and> successful_commands st' = successful_commands st \<and>
     skipped_commands st' = skipped_commands st \<and> commands st' = commands st \<and>
     asked st' = asked st \<and> (\<exists>x. spawned st' = spawned st @ [(cmd c, 300, x)])"
  by (auto simp: rich_invocation_def Let_def split: prod.splits sum.splits if_splits
      dest!: subprocess_run_frame rich_print_frame)

lemma rich_try_frame:
  "rich_try w st c = (r, st') \<Longrightarrow>
     failed_commands st' = failed_commands st \<and> successful_commands st' = successful_commands st \<and>
     skipped_commands st' = skipped_commands st \<and> commands st' = commands st \<and>
     asked st' = asked st \<and> (\<exists>xs. spawned st' = spawned st @ xs)"
  by (auto simp: rich_try_def Let_def split: prod.splits sum.splits if_splits dest!: subprocess_run_frame rich_invocation_frame)

lemma rich_except_frame:
  "rich_except w c e st = (r, st') \<Longrightarrow>
     failed_commands st' = failed_commands st \<and> successful_commands st' = successful_commands st \<and>
     skipped_commands st' = skipped_commands st \<and> commands st' = commands st \<and>
     asked st' = asked st \<and> spawned st' = spawned st"
  by (cases e)
     (auto simp: Let_def split: if_splits prod.splits sum.splits dest!: rich_print_frame)

lemma run_command_rich_frame:
  "run_command_rich w st c = (r, st') \<Longrightarrow>
     failed_commands st' = failed_commands st \<and> successful_commands st' = successful_commands st \<and>
     skipped_commands st' = skipped_commands st \<and> commands st' = commands st \<and>
     asked st' = asked st \<and> (\<exists>xs. spawned st' = spawned st @ xs)"
  by (auto simp: run_command_rich_def split: prod.splits sum.splits dest!: rich_try_frame rich_except_frame)

lemma run_command_plain_frame:
  "run_command_plain w st c = (r, st') \<Longrightarrow>
     failed_commands st' = failed_commands st \<and> successful_commands st' = successful_commands st \<and>
     skipped_commands st' = skipped_commands st \<and> commands st' = commands st \<and>
     asked st' = asked st \<and> (\<exists>xs. spawned st' = spawned st @ xs)"
  by (auto simp: run_command_plain_def Let_def split: prod.splits sum.splits if_splits dest!: subprocess_run_frame)

lemma run_command_frame:
  "run_command w st c = (r, st') \<Longrightarrow>
     failed_commands st' = failed_commands st \<and> successful_commands st' = successful_commands st \<and>
     skipped_commands st' = skipped_commands st \<and> commands st' = commands st \<and>
     asked st' = asked st \<and> (\<exists>xs. spawned st' = spawned st @ xs)"
  unfolding run_command_def
  by (auto split: if_splits dest!: run_command_rich_frame run_command_plain_frame)

lemma continue_despite_failure_frame:
  "continue_despite_failure w st = (r, st') \<Longrightarrow>
     failed_commands st' = failed_commands st \<and> successful_commands st' = successful_commands st \<and>
     skipped_commands st' = skipped_commands st \<and> commands st' = commands st \<and>
     asked st' = asked st @ [ContinueDespiteFailure] \<and> spawned st' = spawned st \<and> printed st' = printed st"
  by (auto simp: continue_despite_failure_def Confirm_ask_def builtin_input_def split: if_splits prod.splits sum.splits)

section \<open>Facts about the loop\<close>

lemma run_commands_append:
  "run_commands w n i st (xs @ ys) =
     (case run_commands w n i st xs of
        (Finished, st1) \<Rightarrow> run_commands w n (i + length xs) st1 ys
      | (e, st1) \<Rightarrow> (e, st1))"
  by (induction xs arbitrary: i st)
     (auto simp: Let_def split: prod.splits sum.splits bool.splits loop_end.splits)


lemma run_commands_grow:
  "run_commands w n i st cs = (e, st') \<Longrightarrow>
     (\<exists>xs. successful_commands st' = successful_commands st @ xs) \<and>
     (\<exists>ys. failed_commands st' = failed_commands st @ ys) \<and>
     skipped_commands st' = skipped_commands st \<and> commands st' = commands st"
proof (induction cs arbitrary: i st)
  case Nil
  then show ?case by simp
next
  case (Cons c cs)
  then show ?case
    by (fastforce simp: Let_def split: prod.splits sum.splits bool.splits if_splits
          dest!: run_command_frame continue_despite_failure_frame)
qed

lemma run_commands_classified:
  "run_commands w n i st cs = (e, st') \<Longrightarrow>
     \<exists>k\<le>length cs.
        mset (successful_commands st' @ failed_commands st') =
          mset (successful_commands st @ failed_commands st) + mset (map name (take k cs)) \<and>
        (e = Finished \<longrightarrow> k = length cs)"
proof (induction cs arbitrary: i st)
  case Nil
  then show ?case by simp
next
  case (Cons c cs)
  obtain r st1 where rc: "run_command w (console_print (StepHeader i n (name c)) st) c = (r, st1)"
    by (cases "run_command w (console_print (StepHeader i n (name c)) st) c")
  from run_command_frame[OF rc]
  have fr: "failed_commands st1 = failed_commands st" "successful_commands st1 = successful_commands st"
    by simp_all
  show ?case
  proof (cases r)
    case (Inl x)
    with rc Cons.prems have "st' = st1" by simp
    with fr show ?thesis by (intro exI[of _ 0]) (use Inl rc Cons.prems in auto)
  next
    case (Inr b)
    show ?thesis
    proof (cases b)
      case True
      let ?s = "st1\<lparr>successful_commands := successful_commands st1 @ [name c]\<rparr>"
      from rc Inr True Cons.prems have "run_commands w n (Suc i) ?s cs = (e, st')" by simp
      from Cons.IH[OF this] obtain k where k: "k \<le> length cs"
        "mset (successful_commands st' @ failed_commands st') =
           mset (successful_commands ?s @ failed_commands ?s) + mset (map name (take k cs))"
        "e = Finished \<longrightarrow> k = length cs" by blast
      show ?thesis
        by (rule exI[of _ "Suc k"]) (use k fr in simp)
    next
      case False
      let ?s = "st1\<lparr>failed_commands := failed_commands st1 @ [name c]\<rparr>"
      show ?thesis
      proof (cases "required c")
        case req: True
        obtain r2 st3 where cd: "continue_despite_failure w (console_print (CriticalFailure (name c)) ?s) = (r2, st3)"
          by (cases "continue_despite_failure w (console_print (CriticalFailure (name c)) ?s)")
        from continue_despite_failure_frame[OF cd]
        have fr3: "failed_commands st3 = failed_commands st @ [name c]" "successful_commands st3 = successful_commands st"
          using fr by simp_all
        show ?thesis
        proof (cases r2)
          case (Inl x)
          with rc Inr False req cd Cons.prems have "st' = st3" "e = Raised x" by (simp_all add: Let_def)
          then show ?thesis using fr3 by (intro exI[of _ 1]) simp
        next
          case r2: (Inr b2)
          show ?thesis
          proof (cases b2)
            case True
            with rc Inr False req cd r2 Cons.prems have "run_commands w n (Suc i) st3 cs = (e, st')"
              by (simp add: Let_def)
            from Cons.IH[OF this] obtain k where k: "k \<le> length cs"
              "mset (successful_commands st' @ failed_commands st') =
                 mset (successful_commands st3 @ failed_commands st3) + mset (map name (take k cs))"
              "e = Finished \<longrightarrow> k = length cs" by blast
            show ?thesis
              by (rule exI[of _ "Suc k"]) (use k fr3 in simp)
          next
            case b2: False
            with rc Inr False req cd r2 Cons.prems have "st' = st3" "e = Halted" by (simp_all add: Let_def)
            then show ?thesis using fr3 by (intro exI[of _ 1]) simp
          qed
        qed
      next
        case opt: False
        with rc Inr False Cons.prems have "run_commands w n (Suc i) ?s cs = (e, st')"
          by (simp add: Let_def)
        from Cons.IH[OF this] obtain k where k: "k \<le> length cs"
          "mset (successful_commands st' @ failed_commands st') =
             mset (successful_commands ?s @ failed_commands ?s) + mset (map name (take k cs))"
          "e = Finished \<longrightarrow> k = length cs" by blast
        show ?thesis
          by (rule exI[of _ "Suc k"]) (use k fr in simp)
      qed
    qed
  qed
qed

section \<open>How one command is classified\<close>

lemma invocation_nonzero_fails:
  assumes "run_command w st c = (r, st1)"
      and "invocation_outcome st st1 c = Some (Inr res)"
      and "returncode res \<noteq> 0"
  shows "r = Inr False \<or> (RICH_AVAILABLE w \<and> r = Inl MarkupError)"
  using assms
  unfolding run_command_def run_command_rich_def run_command_plain_def rich_try_def
    rich_invocation_def subprocess_run_def invocation_outcome_def rich_print_def
  by (auto simp: Let_def rich_print_def split: if_splits behaviour.splits)

lemma invocation_timeout_fails:
  assumes "run_command w st c = (r, st1)"
      and "invocation_outcome st st1 c = Some (Inl TimeoutExpired)"
  shows "r = Inr False \<and>
         last (printed st1) =
           (if RICH_AVAILABLE w then StepTimedOut (name c) else ErrorIn (name c) TimeoutExpired)"
  using assms
  unfolding run_command_def run_command_rich_def run_command_plain_def rich_try_def
    rich_invocation_def subprocess_run_def invocation_outcome_def rich_print_def
  by (auto simp: Let_def rich_print_def split: if_splits behaviour.splits)









section \<open>Optional steps\<close>

lemma optional_failure_goes_on:
  assumes "\<not> required c"
      and "run_command w (console_print (StepHeader i n (name c)) st) c = (Inr False, st1)"
  shows "run_commands w n i st (c # cs) =
           run_commands w n (Suc i) (st1\<lparr>failed_commands := failed_commands st @ [name c]\<rparr>) cs"
  using assms run_command_frame[OF assms(2)] by (simp add: Let_def)

lemma optional_never_halts:
  "\<forall>c\<in>set cs. \<not> required c \<Longrightarrow> fst (run_commands w n i st cs) \<noteq> Halted"
proof (induction cs arbitrary: i st)
  case Nil
  then show ?case by simp
next
  case (Cons c cs)
  then show ?case
    by (auto simp: Let_def split: prod.splits sum.splits bool.splits)
qed

lemma failed_step_recorded:
  assumes "run_command w (console_print (StepHeader i n (name c)) st) c = (Inr False, st1)"
  shows "name c \<in> set (failed_commands (snd (run_commands w n i st (c # cs))))"
proof -
  let ?s = "st1\<lparr>failed_commands := failed_commands st1 @ [name c]\<rparr>"
  have grow: "\<And>j s e s'. run_commands w n j s cs = (e, s') \<Longrightarrow>
      name c \<in> set (failed_commands s) \<Longrightarrow> name c \<in> set (failed_commands s')"
    using run_commands_grow by fastforce
  show ?thesis
  proof (cases "required c")
    case False
    obtain e s' where r: "run_commands w n (Suc i) ?s cs = (e, s')"
      by (cases "run_commands w n (Suc i) ?s cs")
    from grow[OF r] have "name c \<in> set (failed_commands s')" by simp
    with assms False r show ?thesis by (simp add: Let_def)
  next
    case True
    obtain r2 st3 where cd:
      "continue_despite_failure w (console_print (CriticalFailure (name c)) ?s) = (r2, st3)"
      by (cases "continue_despite_failure w (console_print (CriticalFailure (name c)) ?s)")
    from continue_despite_failure_frame[OF cd]
    have f3: "name c \<in> set (failed_commands st3)" by simp
    show ?thesis
    proof (cases "r2 = Inr True")
      case t: True
      obtain e s' where r: "run_commands w n (Suc i) st3 cs = (e, s')"
        by (cases "run_commands w n (Suc i) st3 cs")
      from grow[OF r f3] assms True cd t r show ?thesis by (simp add: Let_def)
    next
      case False
      with assms True cd f3 show ?thesis
        by (cases r2) (auto simp: Let_def split: bool.splits)
    qed
  qed
qed

lemma optional_failure_recorded:
  assumes "\<not> required c"
      and "run_command w (console_print (StepHeader i n (name c)) st) c = (Inr b, st1)"
      and "invocation_outcome st st1 c = Some (Inr res)" and "returncode res \<noteq> 0"
  shows "b = False \<and> asked st1 = asked st \<and>
         run_commands w n i st (c # cs) =
           run_commands w n (Suc i) (st1\<lparr>failed_commands := failed_commands st @ [name c]\<rparr>) cs \<and>
         name c \<in> set (failed_commands (snd (run_commands w n i st (c # cs))))"
proof -
  let ?st0 = "console_print (StepHeader i n (name c)) st"
  have "invocation_outcome ?st0 st1 c = invocation_outcome st st1 c"
    by (simp add: invocation_outcome_def)
  with assms(3) have "invocation_outcome ?st0 st1 c = Some (Inr res)" by simp
  from invocation_nonzero_fails[OF assms(2) this assms(4)] have b: "b = False" by simp
  with assms(2) have rc: "run_command w ?st0 c = (Inr False, st1)" by simp
  from run_command_frame[OF rc] have "asked st1 = asked st" by simp
  with b optional_failure_goes_on[OF assms(1) rc] failed_step_recorded[OF rc]
  show ?thesis by simp
qed

lemma plain_path_returns:
  assumes "\<not> RICH_AVAILABLE w" and "run_command w st c = (r, st1)"
  shows "(\<exists>b. r = Inr b) \<or> r = Inl KeyboardInterrupt"
  using assms
  unfolding run_command_def run_command_plain_def subprocess_run_def
  by (auto simp: Let_def split: if_splits behaviour.splits)

text \<open>
  C7 at the input where the code departs from it: the rich console, an optional step
  whose invocation exits 1 after writing \<^verbatim>\<open>see [/tmp/log]\<close> to its error stream, and a step
  after it. \<^verbatim>\<open>console.print\<close> raises \<^verbatim>\<open>MarkupError\<close> on the error line; the last \<^verbatim>\<open>except\<close>
  clause of \<^verbatim>\<open>run_command\<close> catches it and raises the same on its own line, which quotes the
  tag. The exception leaves \<^verbatim>\<open>run_command\<close> and the loop: the step's name is in no sequence,
  the next step is never run, and the process ends with status 1. On the plain console
  the same step is recorded as failed without a prompt and the next step runs.
\<close>

theorem optional_failure_raises:
  "\<not> required stepB_optional \<and>
   invocation_outcome (InstallationManager [stepB_optional, stepC])
     (snd (run_command (world_markup True)
        (console_print (StepHeader 1 2 (name stepB_optional))
           (InstallationManager [stepB_optional, stepC])) stepB_optional)) stepB_optional
     = Some (Inr \<lparr>returncode = 1, stdout = [], stderr = ''see [/tmp/log]''\<rparr>) \<and>
   fst (run_command (world_markup True)
        (console_print (StepHeader 1 2 (name stepB_optional))
           (InstallationManager [stepB_optional, stepC])) stepB_optional) = Inl MarkupError \<and>
   fst (run_commands (world_markup True) 2 1 (InstallationManager [stepB_optional, stepC])
          [stepB_optional, stepC]) = Raised MarkupError \<and>
   failed_commands (snd (run_commands (world_markup True) 2 1
      (InstallationManager [stepB_optional, stepC]) [stepB_optional, stepC])) = [] \<and>
   successful_commands (snd (run_commands (world_markup True) 2 1
      (InstallationManager [stepB_optional, stepC]) [stepB_optional, stepC])) = [] \<and>
   calls (snd (run_commands (world_markup True) 2 1
      (InstallationManager [stepB_optional, stepC]) [stepB_optional, stepC]))
     = [([''b''], 300)] \<and>
   fst (main (world_markup True) [stepB_optional, stepC]) = 1 \<and>
   failed_commands (snd (main (world_markup True) [stepB_optional, stepC])) = [] \<and>
   fst (run_commands (world_markup False) 2 1 (InstallationManager [stepB_optional, stepC])
          [stepB_optional, stepC]) = Finished \<and>
   failed_commands (snd (run_commands (world_markup False) 2 1
      (InstallationManager [stepB_optional, stepC]) [stepB_optional, stepC])) = [''B''] \<and>
   successful_commands (snd (run_commands (world_markup False) 2 1
      (InstallationManager [stepB_optional, stepC]) [stepB_optional, stepC])) = [''C''] \<and>
   asked (snd (run_commands (world_markup False) 2 1
      (InstallationManager [stepB_optional, stepC]) [stepB_optional, stepC])) = [] \<and>
   calls (snd (run_commands (world_markup False) 2 1
      (InstallationManager [stepB_optional, stepC]) [stepB_optional, stepC]))
     = [([''b''], 300), ([''c''], 300)]"
  by code_simp

section \<open>Halting\<close>

text \<open>
  C2. When a required step's invocation exits non-zero, \<^verbatim>\<open>run_command\<close> returns its
  classification, so that the continue-despite-failure prompt is reached, and the user
  declines it, the loop halts at once: on a fresh manager with distinct step names, no
  step after the failing one is in any of the three outcome sequences and no further
  process is spawned, the failing step's name is in the failed sequence, and the name of
  every earlier step that succeeded is in the successful sequence.
\<close>

theorem halt_on_decline:
  assumes fresh: "successful_commands st = []" "failed_commands st = []"
                 "skipped_commands st = []"
      and dist: "distinct (map name (pre @ c # post))"
      and pre: "run_commands w n i st pre = (Finished, st1)"
      and req: "required c"
      and rc: "run_command w (console_print (StepHeader (i + length pre) n (name c)) st1) c
                 = (Inr b, st2)"
      and out: "invocation_outcome st1 st2 c = Some (Inr res)"
      and nz: "returncode res \<noteq> 0"
      and decl: "continue_despite_failure w
                   (console_print (CriticalFailure (name c))
                      (st2\<lparr>failed_commands := failed_commands st2 @ [name c]\<rparr>))
                 = (Inr False, st3)"
  shows "run_commands w n i st (pre @ c # post) = (Halted, st3) \<and>
         (\<forall>p\<in>set post. name p \<notin> set (successful_commands st3) \<union> set (failed_commands st3)
                                    \<union> set (skipped_commands st3)) \<and>
         name c \<in> set (failed_commands st3) \<and>
         spawned st3 = spawned st2 \<and>
         (\<forall>p1 a p2 sa sb.
            pre = p1 @ a # p2 \<and> run_commands w n i st p1 = (Finished, sa) \<and>
            run_command w (console_print (StepHeader (i + length p1) n (name a)) sa) a
              = (Inr True, sb)
            \<longrightarrow> name a \<in> set (successful_commands st3))"
proof -
  let ?st0 = "console_print (StepHeader (i + length pre) n (name c)) st1"
  have "invocation_outcome ?st0 st2 c = invocation_outcome st1 st2 c"
    by (simp add: invocation_outcome_def)
  with out have "invocation_outcome ?st0 st2 c = Some (Inr res)" by simp
  from invocation_nonzero_fails[OF rc this nz] have r: "b = False" by simp
  from run_command_frame[OF rc]
  have fr2: "failed_commands st2 = failed_commands st1"
    "successful_commands st2 = successful_commands st1"
    "skipped_commands st2 = skipped_commands st1" by simp_all
  from continue_despite_failure_frame[OF decl]
  have fr3: "failed_commands st3 = failed_commands st1 @ [name c]"
    "successful_commands st3 = successful_commands st1"
    "skipped_commands st3 = skipped_commands st1" "spawned st3 = spawned st2"
    using fr2 by simp_all
  have halted: "run_commands w n i st (pre @ c # post) = (Halted, st3)"
    using pre rc r req decl by (simp add: run_commands_append Let_def)
  from run_commands_classified[OF pre] fresh
  have "mset (successful_commands st1 @ failed_commands st1) = mset (map name pre)" by auto
  then have names1: "set (successful_commands st1) \<union> set (failed_commands st1) = name ` set pre"
    by (metis mset_eq_setD set_append set_map)
  from run_commands_grow[OF pre] fresh have sk1: "skipped_commands st1 = []" by simp
  have absent: "\<forall>p\<in>set post. name p \<notin> set (successful_commands st3)
      \<union> set (failed_commands st3) \<union> set (skipped_commands st3)"
  proof
    fix p assume p: "p \<in> set post"
    from p have "name p \<in> name ` set post" by simp
    with dist have "name p \<notin> name ` set pre" "name p \<noteq> name c" by auto
    with names1 fr3 sk1 show "name p \<notin> set (successful_commands st3)
      \<union> set (failed_commands st3) \<union> set (skipped_commands st3)" by auto
  qed
  have earlier: "\<forall>p1 a p2 sa sb.
      pre = p1 @ a # p2 \<and> run_commands w n i st p1 = (Finished, sa) \<and>
      run_command w (console_print (StepHeader (i + length p1) n (name a)) sa) a = (Inr True, sb)
      \<longrightarrow> name a \<in> set (successful_commands st3)"
  proof (intro allI impI)
    fix p1 a p2 sa sb
    assume h: "pre = p1 @ a # p2 \<and> run_commands w n i st p1 = (Finished, sa) \<and>
      run_command w (console_print (StepHeader (i + length p1) n (name a)) sa) a = (Inr True, sb)"
    let ?s = "sb\<lparr>successful_commands := successful_commands sb @ [name a]\<rparr>"
    from h pre have "run_commands w n (Suc (i + length p1)) ?s p2 = (Finished, st1)"
      by (simp add: run_commands_append)
    from run_commands_grow[OF this] obtain xs where
      "successful_commands st1 = successful_commands ?s @ xs" by blast
    with fr3 show "name a \<in> set (successful_commands st3)" by simp
  qed
  from halted absent fr3 earlier show ?thesis by simp
qed

theorem halt_on_decline_witness:
  "fst (run_commands (world_b_fails True) 3 1
          ((InstallationManager [stepA, stepB, stepC])\<lparr>asked := [ContinueWithInstallation]\<rparr>)
          [stepA, stepB, stepC]) = Halted \<and>
   name stepC \<notin> set (successful_commands (snd (run_commands (world_b_fails True) 3 1
          ((InstallationManager [stepA, stepB, stepC])\<lparr>asked := [ContinueWithInstallation]\<rparr>)
          [stepA, stepB, stepC]))) \<union>
     set (failed_commands (snd (run_commands (world_b_fails True) 3 1
          ((InstallationManager [stepA, stepB, stepC])\<lparr>asked := [ContinueWithInstallation]\<rparr>)
          [stepA, stepB, stepC]))) \<union>
     set (skipped_commands (snd (run_commands (world_b_fails True) 3 1
          ((InstallationManager [stepA, stepB, stepC])\<lparr>asked := [ContinueWithInstallation]\<rparr>)
          [stepA, stepB, stepC]))) \<and>
   name stepB \<in> set (failed_commands (snd (run_commands (world_b_fails True) 3 1
          ((InstallationManager [stepA, stepB, stepC])\<lparr>asked := [ContinueWithInstallation]\<rparr>)
          [stepA, stepB, stepC]))) \<and>
   name stepA \<in> set (successful_commands (snd (run_commands (world_b_fails True) 3 1
          ((InstallationManager [stepA, stepB, stepC])\<lparr>asked := [ContinueWithInstallation]\<rparr>)
          [stepA, stepB, stepC])))"
proof -
  let ?w = "world_b_fails True"
  let ?st = "(InstallationManager [stepA, stepB, stepC])\<lparr>asked := [ContinueWithInstallation]\<rparr>"
  let ?pre = "run_commands ?w 3 1 ?st [stepA]"
  let ?st1 = "snd ?pre"
  let ?rc = "run_command ?w (console_print (StepHeader (1 + length [stepA]) 3 (name stepB)) ?st1) stepB"
  let ?st2 = "snd ?rc"
  let ?cd = "continue_despite_failure ?w
               (console_print (CriticalFailure (name stepB))
                  (?st2\<lparr>failed_commands := failed_commands ?st2 @ [name stepB]\<rparr>))"
  let ?st3 = "snd ?cd"
  let ?res = "\<lparr>returncode = 1, stdout = [], stderr = ''boom''\<rparr>"
  let ?ra = "run_command ?w (console_print (StepHeader (1 + length ([]::Command list)) 3 (name stepA)) ?st) stepA"
  have fresh: "successful_commands ?st = []" "failed_commands ?st = []" "skipped_commands ?st = []"
    by (simp_all add: InstallationManager_def)
  have dist: "distinct (map name ([stepA] @ stepB # [stepC]))"
    by (simp add: stepA_def stepB_def stepC_def)
  have "fst ?pre = Finished" by code_simp
  then have pre: "?pre = (Finished, ?st1)" by (simp add: prod_eq_iff)
  have req: "required stepB" by (simp add: stepB_def)
  have "fst ?rc = Inr False" by code_simp
  then have rc: "?rc = (Inr False, ?st2)" by (simp add: prod_eq_iff)
  have out: "invocation_outcome ?st1 ?st2 stepB = Some (Inr ?res)" by code_simp
  have nz: "returncode ?res \<noteq> 0" by simp
  have "fst ?cd = Inr False" by code_simp
  then have decl: "?cd = (Inr False, ?st3)" by (simp add: prod_eq_iff)
  have "fst ?ra = Inr True" by code_simp
  then have ra: "?ra = (Inr True, snd ?ra)" by (simp add: prod_eq_iff)
  have nil: "run_commands ?w 3 1 ?st [] = (Finished, ?st)" by simp
  note h = halt_on_decline[where post = "[stepC]", OF fresh dist pre req rc out nz decl]
  from h have run: "run_commands ?w 3 1 ?st ([stepA] @ stepB # [stepC]) = (Halted, ?st3)" by blast
  from h have c: "name stepC \<notin> set (successful_commands ?st3) \<union> set (failed_commands ?st3)
      \<union> set (skipped_commands ?st3)" by simp
  from h have b: "name stepB \<in> set (failed_commands ?st3)" by blast
  from h have "[stepA] = [] @ stepA # [] \<and> run_commands ?w 3 1 ?st [] = (Finished, ?st) \<and> ?ra = (Inr True, snd ?ra)
      \<longrightarrow> name stepA \<in> set (successful_commands ?st3)" by blast
  with nil ra have a: "name stepA \<in> set (successful_commands ?st3)" by simp
  from run have eq: "run_commands ?w 3 1 ?st [stepA, stepB, stepC] = (Halted, ?st3)" by simp
  show ?thesis unfolding eq using a b c by simp
qed

section \<open>Every step has one fate\<close>

lemma summary_mentions:
  "m \<in> set (summary_lines rich ok bad skip) \<Longrightarrow>
     set (mentioned m) \<subseteq> set ok \<union> set bad \<union> set skip"
  by (auto simp: summary_lines_def split: if_splits dest: in_set_takeD)

text \<open>
  C3, as the code has it. On a fresh manager with distinct step names the three outcome
  sequences together hold exactly the names of the steps that were attempted, each once;
  after a run that is neither aborted nor halted these are all the steps. The steps a
  halt (or an escaping error) leaves unattempted are in no sequence, and no line of the
  final summary shows their names: the summary is built from the three sequences alone.
\<close>

theorem classification_after_run:
  assumes fresh: "successful_commands st = []" "failed_commands st = []"
                 "skipped_commands st = []"
      and dist: "distinct (map name cs)"
      and run: "run_commands w n i st cs = (e, st')"
  shows "\<exists>k\<le>length cs.
           mset (successful_commands st' @ failed_commands st' @ skipped_commands st')
             = mset (map name (take k cs)) \<and>
           distinct (successful_commands st' @ failed_commands st' @ skipped_commands st') \<and>
           (e = Finished \<longrightarrow> k = length cs) \<and>
           (\<forall>c\<in>set (drop k cs).
              \<forall>m\<in>set (summary_lines rich (successful_commands st') (failed_commands st')
                           (skipped_commands st')).
                name c \<notin> set (mentioned m))"
proof -
  from run_commands_classified[OF run] fresh obtain k where k: "k \<le> length cs"
    and ms: "mset (successful_commands st' @ failed_commands st') = mset (map name (take k cs))"
    and fin: "e = Finished \<longrightarrow> k = length cs" by auto
  from run_commands_grow[OF run] fresh have sk: "skipped_commands st' = []" by simp
  let ?all = "successful_commands st' @ failed_commands st' @ skipped_commands st'"
  from ms sk have ms': "mset ?all = mset (map name (take k cs))" by simp
  from dist have dk: "distinct (map name (take k cs))"
    by (metis distinct_take take_map)
  with ms' have d: "distinct ?all" by (metis mset_eq_imp_distinct_iff)
  from ms' have sets: "set ?all = name ` set (take k cs)" by (metis mset_eq_setD set_map)
  have hidden: "\<forall>c\<in>set (drop k cs).
      \<forall>m\<in>set (summary_lines rich (successful_commands st') (failed_commands st')
                   (skipped_commands st')).
        name c \<notin> set (mentioned m)"
  proof (intro ballI)
    fix c m
    assume c: "c \<in> set (drop k cs)"
      and m: "m \<in> set (summary_lines rich (successful_commands st') (failed_commands st')
                        (skipped_commands st'))"
    have "distinct (map name (take k cs) @ map name (drop k cs))"
      using dist by (metis append_take_drop_id map_append)
    with c have "name c \<notin> name ` set (take k cs)" by auto
    with sets have "name c \<notin> set ?all" by simp
    with summary_mentions[OF m] show "name c \<notin> set (mentioned m)" by auto
  qed
  from k ms' d fin hidden show ?thesis by blast
qed

theorem halted_summary_counterexample:
  "fst (main (world_b_fails False) [stepA, stepB, stepC]) = 0 \<and>
   successful_commands (snd (main (world_b_fails False) [stepA, stepB, stepC])) = [''A''] \<and>
   failed_commands (snd (main (world_b_fails False) [stepA, stepB, stepC])) = [''B''] \<and>
   skipped_commands (snd (main (world_b_fails False) [stepA, stepB, stepC])) = [] \<and>
   map fst (spawned (snd (main (world_b_fails False) [stepA, stepB, stepC])))
     = [[''node'', ''--version''], [''npm'', ''--version''], [''git'', ''--version''],
        [''a''], [''b'']] \<and>
   ''C'' \<notin> set (concat (map mentioned
              (printed (snd (main (world_b_fails False) [stepA, stepB, stepC])))))"
  by code_simp

theorem classification_after_run_witness:
  "(fst (run_commands (world_all_ok True) 3 1 (InstallationManager [stepA, stepB, stepC])
           [stepA, stepB, stepC]) = Finished \<and>
    mset (successful_commands (snd (run_commands (world_all_ok True) 3 1
             (InstallationManager [stepA, stepB, stepC]) [stepA, stepB, stepC])) @
          failed_commands (snd (run_commands (world_all_ok True) 3 1
             (InstallationManager [stepA, stepB, stepC]) [stepA, stepB, stepC])) @
          skipped_commands (snd (run_commands (world_all_ok True) 3 1
             (InstallationManager [stepA, stepB, stepC]) [stepA, stepB, stepC])))
      = mset (map name [stepA, stepB, stepC])) \<and>
   (fst (run_commands (world_b_fails False) 3 1
           ((InstallationManager [stepA, stepB, stepC])\<lparr>asked := [ContinueWithInstallation]\<rparr>)
           [stepA, stepB, stepC]) = Halted \<and>
    (\<exists>k\<le>3. stepC \<in> set (drop k [stepA, stepB, stepC]) \<and>
       (\<forall>c\<in>set (drop k [stepA, stepB, stepC]).
          \<forall>m\<in>set (summary_lines False
                 (successful_commands (snd (run_commands (world_b_fails False) 3 1
                    ((InstallationManager [stepA, stepB, stepC])\<lparr>asked := [ContinueWithInstallation]\<rparr>)
                    [stepA, stepB, stepC])))
                 (failed_commands (snd (run_commands (world_b_fails False) 3 1
                    ((InstallationManager [stepA, stepB, stepC])\<lparr>asked := [ContinueWithInstallation]\<rparr>)
                    [stepA, stepB, stepC])))
                 (skipped_commands (snd (run_commands (world_b_fails False) 3 1
                    ((InstallationManager [stepA, stepB, stepC])\<lparr>asked := [ContinueWithInstallation]\<rparr>)
                    [stepA, stepB, stepC])))).
            name c \<notin> set (mentioned m))))"
proof -
  let ?cs = "[stepA, stepB, stepC]"
  let ?s1 = "InstallationManager ?cs"
  let ?s2 = "(InstallationManager ?cs)\<lparr>asked := [ContinueWithInstallation]\<rparr>"
  let ?r1 = "run_commands (world_all_ok True) 3 1 ?s1 ?cs"
  let ?r2 = "run_commands (world_b_fails False) 3 1 ?s2 ?cs"
  have fresh1: "successful_commands ?s1 = []" "failed_commands ?s1 = []" "skipped_commands ?s1 = []"
    by (simp_all add: InstallationManager_def)
  have fresh2: "successful_commands ?s2 = []" "failed_commands ?s2 = []" "skipped_commands ?s2 = []"
    by (simp_all add: InstallationManager_def)
  have dist: "distinct (map name ?cs)" by (simp add: stepA_def stepB_def stepC_def)
  have f1: "fst ?r1 = Finished" by code_simp
  then have run1: "?r1 = (Finished, snd ?r1)" by (simp add: prod_eq_iff)
  have f2: "fst ?r2 = Halted" by code_simp
  then have run2: "?r2 = (Halted, snd ?r2)" by (simp add: prod_eq_iff)
  have two: "length (successful_commands (snd ?r2) @ failed_commands (snd ?r2)
      @ skipped_commands (snd ?r2)) = 2" by code_simp
  from classification_after_run[OF fresh1 dist run1, of True]
  have a: "mset (successful_commands (snd ?r1) @ failed_commands (snd ?r1)
      @ skipped_commands (snd ?r1)) = mset (map name ?cs)" by auto
  from classification_after_run[OF fresh2 dist run2, of False]
  obtain k where k: "k \<le> length ?cs"
    "mset (successful_commands (snd ?r2) @ failed_commands (snd ?r2) @ skipped_commands (snd ?r2))
       = mset (map name (take k ?cs))"
    "\<forall>c\<in>set (drop k ?cs).
       \<forall>m\<in>set (summary_lines False (successful_commands (snd ?r2)) (failed_commands (snd ?r2))
                    (skipped_commands (snd ?r2))).
         name c \<notin> set (mentioned m)" by blast
  from k(2) have "length (successful_commands (snd ?r2) @ failed_commands (snd ?r2)
      @ skipped_commands (snd ?r2)) = length (map name (take k ?cs))"
    by (metis size_mset)
  with two k(1) have "k = 2" by simp
  then have sc: "stepC \<in> set (drop k ?cs)" by simp
  from k(1) have k3: "k \<le> 3" by simp
  from k3 sc k(3) have b: "\<exists>k\<le>3. stepC \<in> set (drop k ?cs) \<and>
       (\<forall>c\<in>set (drop k ?cs).
          \<forall>m\<in>set (summary_lines False (successful_commands (snd ?r2)) (failed_commands (snd ?r2))
                    (skipped_commands (snd ?r2))).
            name c \<notin> set (mentioned m))" by blast
  from f1 a f2 b show ?thesis by blast
qed

section \<open>Facts about the Prerequisite Gate\<close>

lemma check_tool_result:
  assumes "check_tool w st argv nm = (x, st1)"
  shows "failed_commands st1 = failed_commands st \<and> successful_commands st1 = successful_commands st \<and>
     skipped_commands st1 = skipped_commands st \<and> commands st1 = commands st \<and>
     asked st1 = asked st \<and> calls st1 = calls st @ [(argv, 10)] \<and>
     length (spawned st1) = Suc (length (spawned st)) \<and>
     (\<forall>m\<in>set (printed st1). m \<in> set (printed st) \<or> (\<exists>nm v. m = PrerequisiteFound nm v)) \<and>
     (case x of
        Inr b \<Rightarrow> \<not> check_escapes w (length (spawned st)) argv nm \<and>
                 tool_absent w (length (spawned st)) argv = (\<not> b)
      | Inl e \<Rightarrow>
          if e = TimeoutExpired \<or> e = FileNotFoundError \<or> is_SubprocessError e
          then tool_absent w (length (spawned st)) argv \<and>
               \<not> check_escapes w (length (spawned st)) argv nm
          else check_escapes w (length (spawned st)) argv nm)"
  using assms
  unfolding check_tool_def subprocess_run_def tool_absent_def check_escapes_def calls_def
  by (auto simp: Let_def rich_print_def split: behaviour.splits if_splits)

lemma check_tools_result:
  "check_tools w ps missing st = (r, st') \<Longrightarrow>
     failed_commands st' = failed_commands st \<and> successful_commands st' = successful_commands st \<and>
     skipped_commands st' = skipped_commands st \<and> commands st' = commands st \<and>
     asked st' = asked st \<and>
     (\<exists>k\<le>length ps. calls st' = calls st @ take k (gate_calls ps)) \<and>
     (case r of
        Inr m \<Rightarrow> \<not> any_escape w (length (spawned st)) ps \<and>
                 m = missing @ absent_from w (length (spawned st)) ps \<and>
                 calls st' = calls st @ gate_calls ps \<and>
                 (\<forall>x\<in>set (printed st'). x \<in> set (printed st) \<or> (\<exists>nm v. x = PrerequisiteFound nm v))
      | Inl e \<Rightarrow> any_escape w (length (spawned st)) ps)"
proof (induction ps arbitrary: missing st)
  case Nil
  then show ?case by (auto simp: gate_calls_def)
next
  case (Cons p ps)
  obtain tool argv nm where p: "p = (tool, argv, nm)" by (cases p)
  obtain x st1 where ct: "check_tool w st argv nm = (x, st1)"
    by (cases "check_tool w st argv nm")
  note h = check_tool_result[OF ct]
  from h have fr: "failed_commands st1 = failed_commands st"
    "successful_commands st1 = successful_commands st"
    "skipped_commands st1 = skipped_commands st" "commands st1 = commands st"
    "asked st1 = asked st" and c1: "calls st1 = calls st @ [(argv, 10)]"
    and len: "length (spawned st1) = Suc (length (spawned st))"
    and pr: "\<forall>m\<in>set (printed st1). m \<in> set (printed st) \<or> (\<exists>nm v. m = PrerequisiteFound nm v)"
    by simp_all
  have gc: "gate_calls (p # ps) = (argv, 10) # gate_calls ps" by (simp add: gate_calls_def p)
  show ?case
  proof (cases "check_escapes w (length (spawned st)) argv nm")
    case True
    with h obtain e where x: "x = Inl e"
      "\<not> (e = TimeoutExpired \<or> e = FileNotFoundError \<or> is_SubprocessError e)"
      by (cases x) (auto split: if_splits)
    with Cons.prems ct have "r = Inl e" "st' = st1" by (auto simp: p)
    with fr c1 gc True show ?thesis
      by (auto simp: p intro: exI[of _ 1])
  next
    case False
    let ?m = "missing @ (if tool_absent w (length (spawned st)) argv then [nm] else [])"
    from h False Cons.prems ct have rest: "check_tools w ps ?m st1 = (r, st')"
      by (cases x) (auto simp: p split: if_splits bool.splits)
    from Cons.IH[OF rest] fr c1 len gc pr False show ?thesis
      apply (simp add: p split: sum.splits)
      apply (auto intro: exI[of _ "Suc k" for k])
      done
  qed
qed

lemma check_prerequisites_result:
  assumes "check_prerequisites w st = (r, st')"
  shows "failed_commands st' = failed_commands st \<and> successful_commands st' = successful_commands st \<and>
     skipped_commands st' = skipped_commands st \<and> commands st' = commands st \<and>
     asked st' = asked st \<and>
     (\<exists>k\<le>length prerequisites. calls st' = calls st @ take k (gate_calls prerequisites)) \<and>
     (r = Inr True \<longrightarrow> absent_from w (length (spawned st)) prerequisites = [] \<and>
                       calls st' = calls st @ gate_calls prerequisites) \<and>
     (r = Inr False \<longrightarrow> absent_from w (length (spawned st)) prerequisites \<noteq> [] \<and>
        MissingPrerequisites (absent_from w (length (spawned st)) prerequisites) \<in> set (printed st')) \<and>
     ((\<exists>e. r = Inl e) = any_escape w (length (spawned st)) prerequisites)"
proof -
  let ?st0 = "console_print CheckingPrerequisites st"
  obtain x st1 where ct: "check_tools w prerequisites [] ?st0 = (x, st1)"
    by (cases "check_tools w prerequisites [] ?st0")
  note h = check_tools_result[OF ct]
  have c0: "calls ?st0 = calls st" by (simp add: calls_def)
  show ?thesis
  proof (cases x)
    case (Inl e)
    with assms ct have "r = Inl e" "st' = st1" by (simp_all add: check_prerequisites_def)
    with h Inl c0 show ?thesis by auto
  next
    case (Inr m)
    show ?thesis
    proof (cases "m = []")
      case True
      with assms ct Inr have "r = Inr True" "st' = st1" by (simp_all add: check_prerequisites_def)
      with h Inr True c0 show ?thesis by auto
    next
      case False
      with assms ct Inr have r: "r = Inr False"
        and s: "st' = console_print PleaseInstallMissing (console_print (MissingPrerequisites m) st1)"
        by (simp_all add: check_prerequisites_def)
      have c1: "calls st' = calls st1" by (simp add: s calls_def)
      from h Inr False c0 c1 r show ?thesis by (auto simp: s)
    qed
  qed
qed

lemma confirm_installation_frame:
  "confirm_installation w st = (r, st') \<Longrightarrow>
     failed_commands st' = failed_commands st \<and> successful_commands st' = successful_commands st \<and>
     skipped_commands st' = skipped_commands st \<and> commands st' = commands st \<and>
     asked st' = asked st @ [ContinueWithInstallation] \<and> spawned st' = spawned st \<and>
     printed st' = printed st"
  by (auto simp: confirm_installation_def Confirm_ask_def builtin_input_def
      split: if_splits prod.splits sum.splits)

lemma fresh_manager [simp]:
  "failed_commands (InstallationManager cs) = []"
  "successful_commands (InstallationManager cs) = []"
  "skipped_commands (InstallationManager cs) = []"
  "commands (InstallationManager cs) = cs"
  "spawned (InstallationManager cs) = []"
  "asked (InstallationManager cs) = []"
  "printed (InstallationManager cs) = []"
  by (simp_all add: InstallationManager_def)

lemma calls_console_print [simp]: "calls (console_print m st) = calls st"
  by (simp add: calls_def)

lemma calls_fresh [simp]: "calls (InstallationManager cs) = []"
  by (simp add: calls_def)




section \<open>The exit status\<close>

text \<open>
  C4, as the code has it. When the user declines the one-time confirmation, the run ends
  through \<^verbatim>\<open>sys.exit(0)\<close>: no step was run (the only processes spawned are the three checks
  of the gate), the three outcome sequences are empty, the cancellation is printed, and
  the exit status is 0.
\<close>

theorem declined_confirmation_exits_zero:
  assumes gate: "check_prerequisites w (console_print Header (InstallationManager cs))
                   = (Inr True, st1)"
      and decl: "confirm_installation w st1 = (Inr False, st2)"
  shows "fst (main w cs) = 0 \<and>
         successful_commands (snd (main w cs)) = [] \<and>
         failed_commands (snd (main w cs)) = [] \<and>
         skipped_commands (snd (main w cs)) = [] \<and>
         calls (snd (main w cs)) = gate_calls prerequisites \<and>
         asked (snd (main w cs)) = [ContinueWithInstallation] \<and>
         last (printed (snd (main w cs))) = Cancelled"
proof -
  have m: "main w cs = (0, console_print Cancelled st2)"
    using gate decl by (simp add: main_def run_installation_def)
  from check_prerequisites_result[OF gate]
  have g: "failed_commands st1 = []" "successful_commands st1 = []" "skipped_commands st1 = []"
    "asked st1 = []" "calls st1 = gate_calls prerequisites" by simp_all
  from confirm_installation_frame[OF decl] g
  have c: "failed_commands st2 = []" "successful_commands st2 = []" "skipped_commands st2 = []"
    "asked st2 = [ContinueWithInstallation]" "calls st2 = gate_calls prerequisites"
    by (simp_all add: calls_def)
  show ?thesis unfolding m using c by simp
qed

theorem declined_confirmation_exits_zero_witness:
  "fst (main (world_declined True) [stepA, stepB, stepC]) = 0 \<and>
   successful_commands (snd (main (world_declined True) [stepA, stepB, stepC])) = [] \<and>
   failed_commands (snd (main (world_declined True) [stepA, stepB, stepC])) = [] \<and>
   skipped_commands (snd (main (world_declined True) [stepA, stepB, stepC])) = [] \<and>
   calls (snd (main (world_declined True) [stepA, stepB, stepC])) = gate_calls prerequisites \<and>
   asked (snd (main (world_declined True) [stepA, stepB, stepC])) = [ContinueWithInstallation] \<and>
   last (printed (snd (main (world_declined True) [stepA, stepB, stepC]))) = Cancelled"
proof -
  let ?w = "world_declined True"
  let ?cs = "[stepA, stepB, stepC]"
  let ?g = "check_prerequisites ?w (console_print Header (InstallationManager ?cs))"
  let ?c = "confirm_installation ?w (snd ?g)"
  have "fst ?g = Inr True" by code_simp
  then have gate: "?g = (Inr True, snd ?g)" by (simp add: prod_eq_iff)
  have "fst ?c = Inr False" by code_simp
  then have decl: "?c = (Inr False, snd ?c)" by (simp add: prod_eq_iff)
  from declined_confirmation_exits_zero[OF gate decl] show ?thesis .
qed

theorem declined_confirmation_counterexample:
  "fst (main (world_declined False) default_commands) = 0 \<and>
   asked (snd (main (world_declined False) default_commands)) = [ContinueWithInstallation] \<and>
   last (printed (snd (main (world_declined False) default_commands))) = Cancelled"
  by code_simp

text \<open>
  C1, as the code has it. Once the gate has passed and the user has confirmed, the exit
  status is 0 whenever the step loop ends, by running off the list or by a halt, whatever
  the failed sequence holds; it is 1 only when an error or an interrupt leaves the loop.
  In the first two cases \<^verbatim>\<open>main\<close> returns after the summary and no exit status is set.
\<close>

theorem exit_status_after_loop:
  assumes gate: "check_prerequisites w (console_print Header (InstallationManager cs))
                   = (Inr True, st1)"
      and conf: "confirm_installation w st1 = (Inr True, st2)"
      and loop: "run_commands w (length cs) 1 (console_print (Starting (length cs)) st2) cs
                   = (e, st3)"
  shows "fst (main w cs) = (case e of Finished \<Rightarrow> 0 | Halted \<Rightarrow> 0 | Raised x \<Rightarrow> 1) \<and>
         ((\<forall>x. e \<noteq> Raised x) \<longrightarrow> snd (main w cs) = print_summary w st3)"
proof -
  from check_prerequisites_result[OF gate] have "commands st1 = cs" by simp
  with confirm_installation_frame[OF conf] have cs: "commands st2 = cs" by simp
  show ?thesis
    using gate conf loop cs
    by (cases e) (simp_all add: main_def run_installation_def)
qed

theorem exit_status_after_loop_witness:
  "fst (main (world_b_fails True) [stepA, stepB, stepC]) = 0 \<and>
   failed_commands (snd (main (world_b_fails True) [stepA, stepB, stepC])) = [''B'']"
proof -
  let ?w = "world_b_fails True"
  let ?cs = "[stepA, stepB, stepC]"
  let ?g = "check_prerequisites ?w (console_print Header (InstallationManager ?cs))"
  let ?c = "confirm_installation ?w (snd ?g)"
  let ?l = "run_commands ?w (length ?cs) 1 (console_print (Starting (length ?cs)) (snd ?c)) ?cs"
  have "fst ?g = Inr True" by code_simp
  then have gate: "?g = (Inr True, snd ?g)" by (simp add: prod_eq_iff)
  have "fst ?c = Inr True" by code_simp
  then have conf: "?c = (Inr True, snd ?c)" by (simp add: prod_eq_iff)
  have loop: "?l = (fst ?l, snd ?l)" by simp
  have halted: "fst ?l = Halted" by code_simp
  have failed: "failed_commands (print_summary ?w (snd ?l)) = [''B'']" by code_simp
  note h = exit_status_after_loop[OF gate conf loop]
  from h halted have "fst (main ?w ?cs) = 0" by (metis loop_end.simps(9))
  moreover from h halted have "snd (main ?w ?cs) = print_summary ?w (snd ?l)"
    by (metis loop_end.distinct(5))
  ultimately show ?thesis using failed by metis
qed

theorem exit_status_counterexample:
  "fst (main (world_pnpm_broken True) default_commands) = 0 \<and>
   required (hd default_commands) \<and>
   failed_commands (snd (main (world_pnpm_broken True) default_commands))
     = [name (hd default_commands)] \<and>
   asked (snd (main (world_pnpm_broken True) default_commands))
     = [ContinueWithInstallation, ContinueDespiteFailure]"
  by code_simp

section \<open>The precheck and the two console paths\<close>

lemma rich_precheck_failure:
  assumes "RICH_AVAILABLE w" and "truthy (check_cmd c)"
      and "proc w (length (spawned st)) (the (check_cmd c)) = Runs d rc out err"
      and "d \<le> 10" and "rc \<noteq> 0"
  shows "fst (run_command w st c) = Inr False \<and>
         calls (snd (run_command w st c)) = calls st @ [(the (check_cmd c), 10)] \<and>
         (truthy (install_hint c) \<longrightarrow>
            ToolNotFound (the (install_hint c)) \<in> set (printed (snd (run_command w st c))))"
  using assms
  by (simp add: run_command_def run_command_rich_def rich_try_def subprocess_run_def calls_def
      Let_def)

lemma same_without_precheck:
  assumes "\<not> truthy (check_cmd c)" and "\<forall>m. \<not> rejects w m"
  shows "fst (run_command_rich w st c) = fst (run_command_plain w st c)"
  using assms
  by (simp add: run_command_rich_def run_command_plain_def rich_try_def rich_invocation_def
      subprocess_run_def rich_print_def Let_def split: behaviour.splits)

text \<open>
  C8 at the input where the code departs from it: no rich console, the step
  \<^verbatim>\<open>Node.js/pnpm Check\<close> of the script, and a \<^verbatim>\<open>pnpm\<close> that exits 1. The plain path never runs
  the precheck: it goes straight to the invocation (the 300 timeout) and prints no
  remediation hint, where the rich path stops at the precheck (the 10 timeout) and prints
  the hint. With a precheck that is another command than the invocation (\<open>stepP\<close>), the
  plain path even classifies the step as successful although its precheck exits 1.
\<close>

theorem plain_path_skips_precheck:
  "fst (run_command (world_pnpm_broken False) (InstallationManager default_commands)
          (hd default_commands)) = Inr False \<and>
   calls (snd (run_command (world_pnpm_broken False) (InstallationManager default_commands)
          (hd default_commands))) = [([''pnpm'', ''--version''], 300)] \<and>
   printed (snd (run_command (world_pnpm_broken False) (InstallationManager default_commands)
          (hd default_commands)))
     = [Describing ''Checking if pnpm is available'', StepFailed ''Node.js/pnpm Check'',
        ErrorLine ''pnpm: broken''] \<and>
   calls (snd (run_command (world_pnpm_broken True) (InstallationManager default_commands)
          (hd default_commands))) = [([''pnpm'', ''--version''], 10)] \<and>
   printed (snd (run_command (world_pnpm_broken True) (InstallationManager default_commands)
          (hd default_commands)))
     = [ToolNotFound ''Install pnpm: npm install -g pnpm'',
        FailedWithExitCode ''Node.js/pnpm Check'' 1] \<and>
   proc (world_b_fails False) 0 (the (check_cmd stepP)) = Runs 1 1 [] ''boom'' \<and>
   fst (run_command (world_b_fails False) (InstallationManager [stepP]) stepP) = Inr True \<and>
   calls (snd (run_command (world_b_fails False) (InstallationManager [stepP]) stepP))
     = [([''a''], 300)]"
  by code_simp

text \<open>
  C10 at the input where the code departs from it: the step \<^verbatim>\<open>Node.js/pnpm Check\<close> of the
  script and a \<^verbatim>\<open>pnpm --version\<close> that takes 20 time units and exits 0. The rich path runs
  the precheck under its 10 timeout and classifies the step as failed; the plain path
  runs no precheck and classifies the step as successful. The same happens for \<open>stepP\<close>
  when its precheck exits 1 and its invocation exits 0.
\<close>

theorem rich_and_plain_disagree:
  "fst (run_command (world_slow True) (InstallationManager default_commands)
          (hd default_commands)) = Inr False \<and>
   fst (run_command (world_slow False) (InstallationManager default_commands)
          (hd default_commands)) = Inr True \<and>
   fst (run_command (world_b_fails True) (InstallationManager [stepP]) stepP) = Inr False \<and>
   fst (run_command (world_b_fails False) (InstallationManager [stepP]) stepP) = Inr True"
  by code_simp

section \<open>Timeouts\<close>

text \<open>
  C9, as the code has it. A step whose invocation outlives the 300 time units is
  classified as failed: \<^verbatim>\<open>run_command\<close> raises nothing and returns the bare boolean
  \<^verbatim>\<open>False\<close>, and the loop appends the step's name to the failed sequence. The only trace
  of the timeout is the line printed when the step ends (the timed-out message on the rich
  path, the error line with the exception on the plain path).
\<close>

theorem timeout_is_plain_failure:
  assumes "run_command w (console_print (StepHeader i n (name c)) st) c = (r, st1)"
      and "invocation_outcome st st1 c = Some (Inl TimeoutExpired)"
  shows "r = Inr False \<and>
         last (printed st1) =
           (if RICH_AVAILABLE w then StepTimedOut (name c) else ErrorIn (name c) TimeoutExpired) \<and>
         name c \<in> set (failed_commands (snd (run_commands w n i st (c # cs))))"
proof -
  let ?st0 = "console_print (StepHeader i n (name c)) st"
  have "invocation_outcome ?st0 st1 c = invocation_outcome st st1 c"
    by (simp add: invocation_outcome_def)
  with assms(2) have "invocation_outcome ?st0 st1 c = Some (Inl TimeoutExpired)" by simp
  from invocation_timeout_fails[OF assms(1) this]
  have a: "r = Inr False" "last (printed st1) =
      (if RICH_AVAILABLE w then StepTimedOut (name c) else ErrorIn (name c) TimeoutExpired)"
    by simp_all
  from assms(1) a(1) have "run_command w ?st0 c = (Inr False, st1)" by simp
  from failed_step_recorded[OF this] a show ?thesis by simp
qed

theorem timeout_is_plain_failure_witness:
  "invocation_outcome (InstallationManager [stepB, stepC])
     (snd (run_command (world_b_hangs False)
        (console_print (StepHeader 1 2 (name stepB)) (InstallationManager [stepB, stepC])) stepB))
     stepB = Some (Inl TimeoutExpired) \<and>
   fst (run_command (world_b_hangs False)
        (console_print (StepHeader 1 2 (name stepB)) (InstallationManager [stepB, stepC])) stepB)
     = Inr False \<and>
   last (printed (snd (run_command (world_b_hangs False)
        (console_print (StepHeader 1 2 (name stepB)) (InstallationManager [stepB, stepC])) stepB)))
     = ErrorIn (name stepB) TimeoutExpired \<and>
   name stepB \<in> set (failed_commands (snd (run_commands (world_b_hangs False) 2 1
        (InstallationManager [stepB, stepC]) [stepB, stepC])))"
proof -
  let ?w = "world_b_hangs False"
  let ?st = "InstallationManager [stepB, stepC]"
  let ?rc = "run_command ?w (console_print (StepHeader 1 2 (name stepB)) ?st) stepB"
  have rc: "?rc = (fst ?rc, snd ?rc)" by simp
  have out: "invocation_outcome ?st (snd ?rc) stepB = Some (Inl TimeoutExpired)" by code_simp
  have plain: "\<not> RICH_AVAILABLE ?w" by (simp add: world_b_hangs_def)
  from timeout_is_plain_failure[OF rc out, of "[stepC]"] out plain show ?thesis by simp
qed

theorem timeout_summary_counterexample:
  "fst (run_command (world_b_hangs True) (InstallationManager [stepA, stepB]) stepB) = Inr False \<and>
   fst (run_command (world_b_fails True) (InstallationManager [stepA, stepB]) stepB) = Inr False \<and>
   StepTimedOut ''B'' \<in> set (printed (snd (main (world_b_hangs True) [stepA, stepB]))) \<and>
   StepTimedOut ''B'' \<notin> set (printed (snd (main (world_b_fails True) [stepA, stepB]))) \<and>
   successful_commands (snd (main (world_b_hangs True) [stepA, stepB]))
     = successful_commands (snd (main (world_b_fails True) [stepA, stepB])) \<and>
   failed_commands (snd (main (world_b_hangs True) [stepA, stepB]))
     = failed_commands (snd (main (world_b_fails True) [stepA, stepB])) \<and>
   skipped_commands (snd (main (world_b_hangs True) [stepA, stepB]))
     = skipped_commands (snd (main (world_b_fails True) [stepA, stepB])) \<and>
   drop (length (printed (snd (main (world_b_hangs True) [stepA, stepB]))) - 6)
        (printed (snd (main (world_b_hangs True) [stepA, stepB])))
     = [RowSuccessful 1 [''A''] None, RowFailed 1 [''B''], TableEnd,
        CompletedWithFailures 1, PleaseReview, TotalTime] \<and>
   drop (length (printed (snd (main (world_b_fails True) [stepA, stepB]))) - 6)
        (printed (snd (main (world_b_fails True) [stepA, stepB])))
     = [RowSuccessful 1 [''A''] None, RowFailed 1 [''B''], TableEnd,
        CompletedWithFailures 1, PleaseReview, TotalTime]"
  by code_simp

end
